theory Spec2Isabelle
  imports Main "HOL-Library.Word"
begin

section \<open>The Token contract\<close>

text \<open>
  The ledger is the Solidity contract \<^verbatim>\<open>Token\<close> (\<^verbatim>\<open>pragma solidity ^0.8.0\<close>):
  \<^verbatim>\<open>
  contract Token {
      string public name = "Hardhat Token";
      string public symbol = "HHT";
      uint public totalSupply = 1000;
      mapping(address => uint) public balances;
      constructor() { balances[msg.sender] = totalSupply; }
      function transfer(address to, uint amount) external {
          require(balances[msg.sender] >= amount, "Not enough tokens!");
          balances[msg.sender] -= amount;
          balances[to] += amount;
      }
      function balanceOf(address account) public view returns (uint) {
          return balances[account];
      }
  }
  \<close>
  An \<^verbatim>\<open>address\<close> is a 160-bit value and \<^verbatim>\<open>uint\<close> is \<^verbatim>\<open>uint256\<close>. A
  \<^verbatim>\<open>mapping\<close> has a value for every key, zero until it is written, so it is a total
  function. From version 0.8 on \<^verbatim>\<open>+\<close> and \<^verbatim>\<open>-\<close> are checked: an overflow or an
  underflow reverts with \<^verbatim>\<open>Panic(0x11)\<close>. A failed \<^verbatim>\<open>require\<close> reverts with
  \<^verbatim>\<open>Error(message)\<close>. The caller \<^verbatim>\<open>msg.sender\<close> is an explicit first argument.
\<close>

type_synonym address = "160 word"
type_synonym uint = "256 word"

record Token =
  name :: string
  symbol :: string
  totalSupply :: uint
  balances :: "address \<Rightarrow> uint"

datatype revert = Error string | Panic nat

subsection \<open>Checked arithmetic\<close>

definition checked_sub :: "uint \<Rightarrow> uint \<Rightarrow> revert + uint" where
  "checked_sub a b = (if a < b then Inl (Panic 0x11) else Inr (a - b))"

definition checked_add :: "uint \<Rightarrow> uint \<Rightarrow> revert + uint" where
  "checked_add a b =
     (if unat a + unat b < 2 ^ 256 then Inr (a + b) else Inl (Panic 0x11))"

subsection \<open>The contract's functions\<close>

text \<open>
  A function takes the storage and returns either the revert reason or its return value
  with the storage it leaves.
\<close>

text \<open>The state variable initialisers run first, then the constructor's body.\<close>

definition constructor :: "address \<Rightarrow> Token" where
  "constructor msg_sender =
     (let s = \<lparr>name = ''Hardhat Token'', symbol = ''HHT'', totalSupply = 1000,
               balances = (\<lambda>_. 0)\<rparr>
      in s\<lparr>balances := (balances s)(msg_sender := totalSupply s)\<rparr>)"

definition transfer :: "address \<Rightarrow> address \<Rightarrow> uint \<Rightarrow> Token \<Rightarrow> revert + (unit \<times> Token)" where
  "transfer msg_sender to amount s =
     (if \<not> (balances s msg_sender \<ge> amount) then Inl (Error ''Not enough tokens!'')
      else
        (case checked_sub (balances s msg_sender) amount of
           Inl e \<Rightarrow> Inl e
         | Inr debited \<Rightarrow>
             (let s1 = s\<lparr>balances := (balances s)(msg_sender := debited)\<rparr>
              in (case checked_add (balances s1 to) amount of
                    Inl e \<Rightarrow> Inl e
                  | Inr credited \<Rightarrow>
                      Inr ((), s1\<lparr>balances := (balances s1)(to := credited)\<rparr>)))))"

definition balanceOf :: "address \<Rightarrow> Token \<Rightarrow> revert + (uint \<times> Token)" where
  "balanceOf account s = Inr (balances s account, s)"

subsection \<open>Transactions\<close>

text \<open>
  A call is a transaction: when it reverts, every storage write it made is undone, so the
  storage after it is the storage before it.
\<close>

datatype call = Transfer address address uint | BalanceOf address

fun step :: "call \<Rightarrow> Token \<Rightarrow> Token" where
  "step (Transfer msg_sender to amount) s =
     (case transfer msg_sender to amount s of Inl e \<Rightarrow> s | Inr (u, s') \<Rightarrow> s')"
| "step (BalanceOf account) s =
     (case balanceOf account s of Inl e \<Rightarrow> s | Inr (v, s') \<Rightarrow> s')"

fun run :: "call list \<Rightarrow> Token \<Rightarrow> Token" where
  "run [] s = s"
| "run (c # cs) s = run cs (step c s)"

text \<open>
  The keys of \<open>balances\<close> that have been assigned: the constructor assigns the creator's,
  a transfer that succeeds assigns the sender's and the recipient's, and a call that
  reverts or only reads assigns none. Every other key has no entry.
\<close>

fun assigned :: "call \<Rightarrow> Token \<Rightarrow> address list" where
  "assigned (Transfer msg_sender to amount) s =
     (case transfer msg_sender to amount s of Inl e \<Rightarrow> [] | Inr r \<Rightarrow> [msg_sender, to])"
| "assigned (BalanceOf account) s = []"

fun assigned_all :: "call list \<Rightarrow> Token \<Rightarrow> address list" where
  "assigned_all [] s = []"
| "assigned_all (c # cs) s = assigned c s @ assigned_all cs (step c s)"

definition entries :: "address \<Rightarrow> call list \<Rightarrow> address list" where
  "entries creator cs = creator # assigned_all cs (constructor creator)"

text \<open>The sum of all balances, each read as a natural number, over every address.\<close>

definition sum_balances :: "Token \<Rightarrow> nat" where
  "sum_balances s = (\<Sum>a\<in>UNIV. unat (balances s a))"

section \<open>Properties\<close>

subsection \<open>Checked arithmetic and single calls\<close>

lemma unat_uint_bound: "unat (x :: uint) < 2 ^ 256"
proof -
  have "unat x < 2 ^ LENGTH(256)" by (rule unsigned_less)
  then show ?thesis by simp
qed

lemma checked_sub_le: "b \<le> a \<Longrightarrow> checked_sub a b = Inr (a - b)"
  by (simp add: checked_sub_def not_less)

lemma checked_add_zero: "checked_add a 0 = Inr a"
  using unat_uint_bound [of a] by (simp add: checked_add_def)

lemma checked_add_undo: "b \<le> a \<Longrightarrow> checked_add (a - b) b = Inr a"
proof -
  assume le: "b \<le> a"
  then have "unat (a - b) + unat b = unat a"
    by (simp add: unat_sub word_le_nat_alt)
  with unat_uint_bound [of a] show ?thesis
    by (simp add: checked_add_def)
qed

lemma checked_add_Inr:
  "checked_add a b = Inr c \<Longrightarrow> c = a + b \<and> unat c = unat a + unat b"
  using unat_add_lem [of a b] by (auto simp: checked_add_def split: if_splits)

lemma checked_add_Inl:
  "checked_add a b = Inl e \<Longrightarrow> e = Panic 0x11 \<and> 2 ^ 256 \<le> unat a + unat b"
  by (auto simp: checked_add_def split: if_splits)

lemma transfer_zero: "transfer a b 0 s = Inr ((), s)"
  by (simp add: transfer_def checked_sub_le checked_add_zero)

lemma transfer_self: "amount \<le> balances s a \<Longrightarrow> transfer a a amount s = Inr ((), s)"
  by (simp add: transfer_def checked_sub_le checked_add_undo)

lemma transfer_require:
  "transfer a b amount s = Inl (Error ''Not enough tokens!'') \<longleftrightarrow> balances s a < amount"
  by (auto simp: transfer_def checked_sub_def Let_def not_le split: sum.splits if_splits dest: checked_add_Inl)



lemma transfer_InrD:
  assumes "transfer a b amount s = Inr (u, s')"
  shows "amount \<le> balances s a"
    and "s' = s\<lparr>balances := ((balances s)(a := balances s a - amount))
                 (b := ((balances s)(a := balances s a - amount)) b + amount)\<rparr>"
    and "unat (((balances s)(a := balances s a - amount)) b) + unat amount < 2 ^ 256"
  using assms
  by (auto simp: transfer_def checked_sub_def checked_add_def Let_def
      split: if_splits sum.splits)

lemma transfer_InlD:
  assumes "transfer a b amount s = Inl e"
  shows "balances s a < amount \<and> e = Error ''Not enough tokens!'' \<or>
         amount \<le> balances s a \<and> e = Panic 0x11 \<and>
         2 ^ 256 \<le> unat (((balances s)(a := balances s a - amount)) b) + unat amount"
  using assms
  by (auto simp: transfer_def checked_sub_def checked_add_def Let_def not_le
      split: if_splits sum.splits)

lemma sum_fun_upd_address:
  fixes f :: "address \<Rightarrow> nat"
  shows "sum (f(a := v)) UNIV + f a = sum f UNIV + v"
proof -
  have "sum (f(a := v)) UNIV = (f(a := v)) a + sum (f(a := v)) (UNIV - {a})"
    by (rule sum.remove) simp_all
  moreover have "sum f UNIV = f a + sum f (UNIV - {a})"
    by (rule sum.remove) simp_all
  moreover have "sum (f(a := v)) (UNIV - {a}) = sum f (UNIV - {a})"
    by (rule sum.cong) simp_all
  ultimately show ?thesis by simp
qed

lemma sum_balances_upd:
  "sum_balances (s\<lparr>balances := (balances s)(a := v)\<rparr>) + unat (balances s a) =
   sum_balances s + unat v"
proof -
  have "sum_balances (s\<lparr>balances := (balances s)(a := v)\<rparr>) =
      sum ((\<lambda>x. unat (balances s x))(a := unat v)) UNIV"
    unfolding sum_balances_def by (rule sum.cong) simp_all
  moreover have "sum ((\<lambda>x. unat (balances s x))(a := unat v)) UNIV + unat (balances s a) =
      sum (\<lambda>x. unat (balances s x)) UNIV + unat v"
    by (rule sum_fun_upd_address)
  ultimately show ?thesis by (simp only: sum_balances_def)
qed

lemma transfer_sum_balances:
  assumes "transfer a b amount s = Inr (u, s')"
  shows "sum_balances s' = sum_balances s"
proof -
  define s1 where "s1 = s\<lparr>balances := (balances s)(a := balances s a - amount)\<rparr>"
  have le: "amount \<le> balances s a"
    and s': "s' = s1\<lparr>balances := (balances s1)(b := balances s1 b + amount)\<rparr>"
    and no: "unat (balances s1 b) + unat amount < 2 ^ 256"
    using transfer_InrD [OF assms] by (simp_all add: s1_def)
  have debit: "sum_balances s1 + unat amount = sum_balances s"
  proof -
    have "unat amount \<le> unat (balances s a)"
      using le by (simp add: word_le_nat_alt)
    moreover have "sum_balances s1 + unat (balances s a) =
        sum_balances s + (unat (balances s a) - unat amount)"
      using sum_balances_upd [of s a "balances s a - amount"] le
      by (simp add: s1_def unat_sub)
    ultimately show ?thesis by linarith
  qed
  have credit: "sum_balances s' = sum_balances s1 + unat amount"
  proof -
    have "unat (balances s1 b + amount) = unat (balances s1 b) + unat amount"
      using no unat_add_lem [of "balances s1 b" amount] by simp
    then show ?thesis
      using sum_balances_upd [of s1 b "balances s1 b + amount"] by (simp add: s')
  qed
  from debit credit show ?thesis by simp
qed

lemma step_sum_balances: "sum_balances (step c s) = sum_balances s"
  by (cases c) (auto simp: balanceOf_def transfer_sum_balances split: sum.splits)

lemma run_sum_balances: "sum_balances (run cs s) = sum_balances s"
  by (induction cs arbitrary: s) (simp_all add: step_sum_balances)

lemma constructor_sum_balances: "sum_balances (constructor creator) = 1000"
proof -
  have "sum_balances (constructor creator) =
      sum ((\<lambda>_. 0)(creator := 1000)) (UNIV :: address set)"
    unfolding sum_balances_def constructor_def
    by (intro sum.cong) (simp_all add: Let_def)
  also have "\<dots> = 1000"
    using sum_fun_upd_address [of "\<lambda>_. 0" creator 1000] by simp
  finally show ?thesis .
qed

lemma transfer_totalSupply:
  "transfer a b amount s = Inr (u, s') \<Longrightarrow> totalSupply s' = totalSupply s"
  by (drule transfer_InrD(2)) simp

lemma step_totalSupply: "totalSupply (step c s) = totalSupply s"
  by (cases c) (auto simp: balanceOf_def transfer_totalSupply split: sum.splits)

lemma run_totalSupply: "totalSupply (run cs s) = totalSupply s"
  by (induction cs arbitrary: s) (simp_all add: step_totalSupply)

lemma constructor_totalSupply: "totalSupply (constructor creator) = 1000"
  by (simp add: constructor_def)

lemma balance_le_sum: "unat (balances s a) \<le> sum_balances s"
  unfolding sum_balances_def
  by (rule member_le_sum [of a UNIV "\<lambda>x. unat (balances s x)"]) simp_all

lemma two_balances_le_sum:
  assumes "a \<noteq> b"
  shows "unat (balances s a) + unat (balances s b) \<le> sum_balances s"
proof -
  have "sum (\<lambda>x. unat (balances s x)) {a, b} \<le> sum (\<lambda>x. unat (balances s x)) UNIV"
    by (rule sum_mono2) simp_all
  with assms show ?thesis by (simp add: sum_balances_def)
qed

lemma transfer_succeeds:
  assumes sum: "sum_balances s < 2 ^ 256" and le: "amount \<le> balances s a"
  shows "\<exists>s'. transfer a b amount s = Inr ((), s')"
proof (cases "a = b")
  case True
  with le show ?thesis by (simp add: transfer_self)
next
  case False
  have "unat amount \<le> unat (balances s a)"
    using le by (simp add: word_le_nat_alt)
  with two_balances_le_sum [OF False, of s] sum
  have "unat (balances s b) + unat amount < 2 ^ 256" by linarith
  with le False show ?thesis
    by (simp add: transfer_def checked_sub_le checked_add_def)
qed

subsection \<open>Sequences of calls\<close>

lemma step_unassigned:
  assumes x: "x \<notin> set (assigned c s)"
  shows "balances (step c s) x = balances s x"
proof (cases c)
  case (Transfer a b amount)
  show ?thesis
  proof (cases "transfer a b amount s")
    case (Inl e)
    with Transfer show ?thesis by simp
  next
    case (Inr r)
    obtain u s' where r: "r = (u, s')" by (cases r)
    from Inr r have ok: "transfer a b amount s = Inr (u, s')" by simp
    from x Transfer Inr have "x \<noteq> a" and "x \<noteq> b" by simp_all
    with transfer_InrD(2) [OF ok] have "balances s' x = balances s x" by simp
    with Transfer ok show ?thesis by simp
  qed
next
  case (BalanceOf account)
  then show ?thesis by (simp add: balanceOf_def)
qed

lemma run_unassigned:
  "x \<notin> set (assigned_all cs s) \<Longrightarrow> balances (run cs s) x = balances s x"
proof (induction cs arbitrary: s)
  case Nil
  then show ?case by simp
next
  case (Cons c cs)
  from Cons.prems have here: "x \<notin> set (assigned c s)"
    and rest: "x \<notin> set (assigned_all cs (step c s))"
    by simp_all
  from rest have "balances (run cs (step c s)) x = balances (step c s) x"
    by (rule Cons.IH)
  with here show ?case by (simp add: step_unassigned)
qed

lemma constructor_balances:
  "balances (constructor creator) = (\<lambda>_. 0)(creator := 1000)"
  by (simp add: constructor_def)

text \<open>
  Outside the states of a ledger the checked addition can revert: with the recipient at
  the largest \<^verbatim>\<open>uint\<close>, a transfer of 1 from an account that holds 1 panics.
\<close>

lemma transfer_panics_outside_ledger:
  "transfer 1 2 1
     ((constructor 1)\<lparr>balances := (\<lambda>_. 0)
        (1 := 1,
         2 := 115792089237316195423570985008687907853269984665640564039457584007913129639935)\<rparr>)
   = Inl (Panic 0x11)"
  by (simp add: transfer_def checked_sub_def checked_add_def)

lemma run_sum_constructor: "sum_balances (run cs (constructor creator)) = 1000"
  by (simp add: run_sum_balances constructor_sum_balances)

lemma reachable_isl_iff:
  "isl (transfer a b amount (run cs (constructor creator))) \<longleftrightarrow>
   balances (run cs (constructor creator)) a < amount"
proof
  assume "isl (transfer a b amount (run cs (constructor creator)))"
  then obtain e where e: "transfer a b amount (run cs (constructor creator)) = Inl e"
    by (cases "transfer a b amount (run cs (constructor creator))") simp_all
  show "balances (run cs (constructor creator)) a < amount"
  proof (rule ccontr)
    assume "\<not> balances (run cs (constructor creator)) a < amount"
    then have "amount \<le> balances (run cs (constructor creator)) a" by simp
    moreover have "sum_balances (run cs (constructor creator)) < 2 ^ 256"
      by (simp add: run_sum_constructor)
    ultimately obtain s' where "transfer a b amount (run cs (constructor creator)) = Inr ((), s')"
      using transfer_succeeds by blast
    with e show False by simp
  qed
next
  assume "balances (run cs (constructor creator)) a < amount"
  then have "transfer a b amount (run cs (constructor creator)) = Inl (Error ''Not enough tokens!'')"
    by (simp only: transfer_require)
  then show "isl (transfer a b amount (run cs (constructor creator)))" by simp
qed

subsection \<open>What a successful transfer writes\<close>

lemma transfer_moves:
  assumes ok: "transfer sender to amount s = Inr (u, s')" and ne: "sender \<noteq> to"
  shows "uint (balances s' sender) = uint (balances s sender) - uint amount"
    and "uint (balances s' to) = uint (balances s to) + uint amount"
proof -
  have le: "amount \<le> balances s sender" by (rule transfer_InrD(1) [OF ok])
  have no: "unat (balances s to) + unat amount < 2 ^ 256"
    using transfer_InrD(3) [OF ok] ne by simp
  have "balances s' sender = balances s sender - amount"
    using transfer_InrD(2) [OF ok] ne by simp
  moreover have "uint amount \<le> uint (balances s sender)"
    using le by (simp add: word_le_def)
  ultimately show "uint (balances s' sender) = uint (balances s sender) - uint amount"
    using uint_sub_lem [of amount "balances s sender"] by simp
  have "balances s' to = balances s to + amount"
    using transfer_InrD(2) [OF ok] ne by simp
  moreover have "unat (balances s to + amount) = unat (balances s to) + unat amount"
    using no unat_add_lem [of "balances s to" amount] by simp
  then have "int (unat (balances s to + amount)) =
      int (unat (balances s to)) + int (unat amount)"
    by simp
  ultimately show "uint (balances s' to) = uint (balances s to) + uint amount"
    by simp
qed

lemma transfer_same:
  assumes ok: "transfer a a amount s = Inr (u, s')"
  shows "s' = s"
  using transfer_InrD(1) [OF ok] ok by (simp add: transfer_self)

lemma scenario:
  assumes ne: "owner \<noteq> addr1"
  shows "balances (constructor owner) owner = 1000"
    and "transfer owner addr1 50 (constructor owner) =
           Inr ((), step (Transfer owner addr1 50) (constructor owner))"
    and "balances (step (Transfer owner addr1 50) (constructor owner)) owner = 950"
    and "balances (step (Transfer owner addr1 50) (constructor owner)) addr1 = 50"
    and "transfer addr1 addr2 100 (step (Transfer owner addr1 50) (constructor owner)) =
           Inl (Error ''Not enough tokens!'')"
    and "balances (step (Transfer addr1 addr2 100)
           (step (Transfer owner addr1 50) (constructor owner))) addr1 = 50"
  using ne
  by (simp_all add: constructor_def transfer_def checked_sub_def checked_add_def)

section \<open>The claims\<close>

text \<open>
  The states of a ledger are those a list of calls reaches from a constructed one:
  \<open>run cs (constructor creator)\<close>. A list of successful transfers is such a list, and a
  call that reverts or only reads leaves the storage as it was, so every state after every
  operation is covered.
\<close>

text \<open>
  C1 (conservation): for every creator and every list of calls, the sum of the balances of
  all addresses, read as natural numbers, is the \<open>totalSupply\<close> set at construction.
\<close>

theorem sum_balances_conserved:
  "sum_balances (run cs (constructor creator)) = unat (totalSupply (constructor creator))"
  by (simp add: run_sum_balances constructor_sum_balances constructor_totalSupply)

theorem sum_balances_conserved_witness:
  "sum_balances (run [Transfer 1 2 50, Transfer 2 3 100, BalanceOf 3, Transfer 2 3 20]
     (constructor 1)) = 1000"
  using sum_balances_conserved [of "[Transfer 1 2 50, Transfer 2 3 100, BalanceOf 3, Transfer 2 3 20]" 1]
  by (simp only: constructor_totalSupply) simp

text \<open>
  C2 (the only failure, and no mutation on failure): in every state the transfer reverts
  with the \<^verbatim>\<open>require\<close> message exactly when the sender's balance is below the amount; a
  transfer that reverts, for whatever reason, leaves the whole storage as it was; and in
  every state of a ledger the transfer reverts at all exactly when the sender's balance is
  below the amount, so the checked addition never reverts there. The specification names
  the \<^verbatim>\<open>require\<close> failure \<^verbatim>\<open>InsufficientBalance\<close>.
\<close>

theorem transfer_fails_iff:
  "(transfer a b amount s = Inl (Error ''Not enough tokens!'') \<longleftrightarrow> balances s a < amount) \<and>
   (isl (transfer a b amount s) \<longrightarrow> step (Transfer a b amount) s = s) \<and>
   (isl (transfer a b amount (run cs (constructor creator))) \<longleftrightarrow>
      balances (run cs (constructor creator)) a < amount)"
proof (intro conjI)
  show "transfer a b amount s = Inl (Error ''Not enough tokens!'') \<longleftrightarrow> balances s a < amount"
    by (rule transfer_require)
  show "isl (transfer a b amount s) \<longrightarrow> step (Transfer a b amount) s = s"
    by (cases "transfer a b amount s") simp_all
  show "isl (transfer a b amount (run cs (constructor creator))) \<longleftrightarrow>
      balances (run cs (constructor creator)) a < amount"
    by (rule reachable_isl_iff)
qed

theorem transfer_fails_iff_witness:
  "balances (run [Transfer 1 2 50] (constructor 1)) 2 < 100 \<and>
   transfer 2 3 100 (run [Transfer 1 2 50] (constructor 1)) = Inl (Error ''Not enough tokens!'') \<and>
   isl (transfer 2 3 100 (run [Transfer 1 2 50] (constructor 1))) \<and>
   step (Transfer 2 3 100) (run [Transfer 1 2 50] (constructor 1)) =
     run [Transfer 1 2 50] (constructor 1)"
proof -
  have lt: "balances (run [Transfer 1 2 50] (constructor 1)) 2 < 100"
    by (simp add: constructor_def transfer_def checked_sub_def checked_add_def)
  with transfer_fails_iff [of 2 3 100 "run [Transfer 1 2 50] (constructor 1)" "[Transfer 1 2 50]" 1]
  show ?thesis by blast
qed

text \<open>
  C3 (effect of a successful transfer): whenever a transfer succeeds, the amount was at most
  the sender's balance, and for distinct accounts the sender's balance, read as an integer,
  is the old one minus the amount and the recipient's is the old one plus the amount; when
  sender and recipient are the same account its balance is as before. In the scenario,
  for an address \<open>addr1\<close> other than \<open>owner\<close>: after construction by \<open>owner\<close> the owner
  holds 1000; the transfer of 50 from \<open>owner\<close> to \<open>addr1\<close> succeeds and leaves 950 and 50;
  the transfer of 100 from \<open>addr1\<close> to any \<open>addr2\<close> then reverts with the
  \<^verbatim>\<open>require\<close> message and \<open>addr1\<close> still holds 50.
\<close>

theorem transfer_moves_amount:
  "(transfer sender to amount s = Inr (u, s') \<longrightarrow>
      amount \<le> balances s sender \<and>
      (sender \<noteq> to \<longrightarrow>
         uint (balances s' sender) = uint (balances s sender) - uint amount \<and>
         uint (balances s' to) = uint (balances s to) + uint amount) \<and>
      (sender = to \<longrightarrow> balances s' sender = balances s sender)) \<and>
   (owner \<noteq> addr1 \<longrightarrow>
      balances (constructor owner) owner = 1000 \<and>
      transfer owner addr1 50 (constructor owner) =
        Inr ((), step (Transfer owner addr1 50) (constructor owner)) \<and>
      balances (step (Transfer owner addr1 50) (constructor owner)) owner = 950 \<and>
      balances (step (Transfer owner addr1 50) (constructor owner)) addr1 = 50 \<and>
      transfer addr1 addr2 100 (step (Transfer owner addr1 50) (constructor owner)) =
        Inl (Error ''Not enough tokens!'') \<and>
      balances (step (Transfer addr1 addr2 100)
        (step (Transfer owner addr1 50) (constructor owner))) addr1 = 50)"
proof (intro conjI impI)
  assume ok: "transfer sender to amount s = Inr (u, s')"
  show "amount \<le> balances s sender" by (rule transfer_InrD(1) [OF ok])
  {
    assume ne: "sender \<noteq> to"
    show "uint (balances s' sender) = uint (balances s sender) - uint amount"
      by (rule transfer_moves(1) [OF ok ne])
    show "uint (balances s' to) = uint (balances s to) + uint amount"
      by (rule transfer_moves(2) [OF ok ne])
  }
  {
    assume eq: "sender = to"
    from ok eq have "transfer to to amount s = Inr (u, s')" by simp
    then have "s' = s" by (rule transfer_same)
    then show "balances s' sender = balances s sender" by simp
  }
next
  assume ne: "owner \<noteq> addr1"
  show "balances (constructor owner) owner = 1000" by (rule scenario(1) [OF ne])
  show "transfer owner addr1 50 (constructor owner) =
      Inr ((), step (Transfer owner addr1 50) (constructor owner))"
    by (rule scenario(2) [OF ne])
  show "balances (step (Transfer owner addr1 50) (constructor owner)) owner = 950"
    by (rule scenario(3) [OF ne])
  show "balances (step (Transfer owner addr1 50) (constructor owner)) addr1 = 50"
    by (rule scenario(4) [OF ne])
  show "transfer addr1 addr2 100 (step (Transfer owner addr1 50) (constructor owner)) =
      Inl (Error ''Not enough tokens!'')"
    by (rule scenario(5) [OF ne])
  show "balances (step (Transfer addr1 addr2 100)
      (step (Transfer owner addr1 50) (constructor owner))) addr1 = 50"
    by (rule scenario(6) [OF ne])
qed


theorem transfer_moves_amount_witness:
  "transfer 1 2 50 (constructor 1) = Inr ((), step (Transfer 1 2 50) (constructor 1)) \<and>
   (50 :: uint) \<le> balances (constructor 1) 1 \<and>
   (1 :: address) \<noteq> 2 \<and>
   uint (balances (step (Transfer 1 2 50) (constructor 1)) 1) =
     uint (balances (constructor 1) 1) - uint (50 :: uint) \<and>
   uint (balances (step (Transfer 1 2 50) (constructor 1)) 2) =
     uint (balances (constructor 1) 2) + uint (50 :: uint) \<and>
   balances (step (Transfer 1 2 50) (constructor 1)) 1 = 950 \<and>
   balances (step (Transfer 1 2 50) (constructor 1)) 2 = 50 \<and>
   transfer 2 3 100 (step (Transfer 1 2 50) (constructor 1)) =
     Inl (Error ''Not enough tokens!'') \<and>
   balances (step (Transfer 2 3 100) (step (Transfer 1 2 50) (constructor 1))) 2 = 50"
proof -
  have ne: "(1 :: address) \<noteq> 2" by simp
  have ok: "transfer 1 2 50 (constructor 1) =
      Inr ((), step (Transfer 1 2 50) (constructor 1))"
    by (simp add: constructor_def transfer_def checked_sub_def checked_add_def)
  from transfer_moves_amount [of 1 2 50 "constructor 1" "()"
      "step (Transfer 1 2 50) (constructor 1)" 1 2 3] ne ok
  show ?thesis by blast
qed

text \<open>
  C4 (non-negativity): in every state of a ledger every balance, read as an integer, is at
  least zero; it is also at most the total supply, so no balance is a wrapped-around
  negative number either.
\<close>

theorem balances_nonnegative:
  "0 \<le> uint (balances (run cs (constructor creator)) a) \<and>
   uint (balances (run cs (constructor creator)) a) \<le> uint (totalSupply (constructor creator))"
proof -
  have "unat (balances (run cs (constructor creator)) a) \<le> 1000"
    using balance_le_sum [of "run cs (constructor creator)" a]
    by (simp add: run_sum_constructor)
  then have "int (unat (balances (run cs (constructor creator)) a)) \<le> 1000"
    by linarith
  then show ?thesis by (simp add: constructor_totalSupply)
qed

theorem balances_nonnegative_witness:
  "0 \<le> uint (balances (run [Transfer 1 2 50, Transfer 2 1 60] (constructor 1)) 2) \<and>
   uint (balances (run [Transfer 1 2 50, Transfer 2 1 60] (constructor 1)) 2) \<le> 1000"
  using balances_nonnegative [of "[Transfer 1 2 50, Transfer 2 1 60]" 1 2]
  by (simp only: constructor_totalSupply) simp

text \<open>
  C5 (constant total supply): construction sets \<open>totalSupply\<close> to 1000, and neither a
  successful \<open>transfer\<close>, nor \<open>balanceOf\<close>, nor any call or list of calls, reverted or
  not, changes it.
\<close>

theorem totalSupply_constant:
  "totalSupply (constructor creator) = 1000 \<and>
   (transfer a b amount s = Inr (u, s') \<longrightarrow> totalSupply s' = totalSupply s) \<and>
   (balanceOf account s = Inr (v, s'') \<longrightarrow> totalSupply s'' = totalSupply s) \<and>
   totalSupply (step c s) = totalSupply s \<and>
   totalSupply (run cs s) = totalSupply s"
  by (auto simp: constructor_totalSupply transfer_totalSupply balanceOf_def
      step_totalSupply run_totalSupply)

theorem totalSupply_constant_witness:
  "transfer 1 2 50 (constructor 1) = Inr ((), step (Transfer 1 2 50) (constructor 1)) \<and>
   balanceOf 2 (constructor 1) = Inr (0, constructor 1) \<and>
   totalSupply (constructor 1) = 1000 \<and>
   totalSupply (step (Transfer 1 2 50) (constructor 1)) = 1000 \<and>
   totalSupply (run [Transfer 1 2 50, BalanceOf 2, Transfer 2 3 7] (constructor 1)) = 1000"
proof -
  have ok: "transfer 1 2 50 (constructor 1) =
      Inr ((), step (Transfer 1 2 50) (constructor 1))"
    by (simp add: constructor_def transfer_def checked_sub_def checked_add_def)
  have rd: "balanceOf 2 (constructor 1) = Inr (0, constructor 1)"
    by (simp add: constructor_def balanceOf_def)
  from totalSupply_constant [of 1 1 2 50 "constructor 1" "()"
      "step (Transfer 1 2 50) (constructor 1)" 2 0 "constructor 1" "Transfer 1 2 50"
      "[Transfer 1 2 50, BalanceOf 2, Transfer 2 3 7]"] ok rd
  show ?thesis by (simp del: step.simps run.simps)
qed

text \<open>
  C6 (\<open>balanceOf\<close> is a pure read): in every state \<open>balanceOf\<close> returns, never reverts,
  returns the stored balance of the account and leaves the storage exactly as it was; and
  in every state of a ledger an account whose key has no entry, one that is neither the
  creator nor the sender or recipient of a transfer that succeeded, reads zero.
\<close>

theorem balanceOf_pure_read:
  "balanceOf account s = Inr (balances s account, s) \<and>
   (account \<notin> set (entries creator cs) \<longrightarrow>
      balanceOf account (run cs (constructor creator)) = Inr (0, run cs (constructor creator)))"
proof (intro conjI impI)
  show "balanceOf account s = Inr (balances s account, s)"
    by (simp add: balanceOf_def)
next
  assume "account \<notin> set (entries creator cs)"
  then have ne: "account \<noteq> creator"
    and un: "account \<notin> set (assigned_all cs (constructor creator))"
    by (simp_all add: entries_def)
  from un have "balances (run cs (constructor creator)) account =
      balances (constructor creator) account"
    by (rule run_unassigned)
  with ne have "balances (run cs (constructor creator)) account = 0"
    by (simp add: constructor_balances)
  then show "balanceOf account (run cs (constructor creator)) =
      Inr (0, run cs (constructor creator))"
    by (simp add: balanceOf_def)
qed

theorem balanceOf_pure_read_witness:
  "3 \<notin> set (entries 1 [Transfer 1 2 50, Transfer 2 3 100, BalanceOf 3]) \<and>
   balanceOf 1 (constructor 1) = Inr (1000, constructor 1) \<and>
   balanceOf 3 (run [Transfer 1 2 50, Transfer 2 3 100, BalanceOf 3] (constructor 1)) =
     Inr (0, run [Transfer 1 2 50, Transfer 2 3 100, BalanceOf 3] (constructor 1))"
proof -
  have h: "3 \<notin> set (entries 1 [Transfer 1 2 50, Transfer 2 3 100, BalanceOf 3])"
    by (simp add: entries_def constructor_def transfer_def checked_sub_def checked_add_def)
  have b: "balances (constructor 1) 1 = 1000"
    by (simp add: constructor_balances)
  from balanceOf_pure_read [of 1 "constructor 1"] b
  have r1: "balanceOf 1 (constructor 1) = Inr (1000, constructor 1)"
    by (simp del: step.simps run.simps)
  from balanceOf_pure_read [of 3 s 1 "[Transfer 1 2 50, Transfer 2 3 100, BalanceOf 3]" for s] h
  have r3: "balanceOf 3 (run [Transfer 1 2 50, Transfer 2 3 100, BalanceOf 3] (constructor 1)) =
      Inr (0, run [Transfer 1 2 50, Transfer 2 3 100, BalanceOf 3] (constructor 1))"
    by blast
  from h r1 r3 show ?thesis by blast
qed

text \<open>
  C7 (construction): the constructed ledger has \<open>totalSupply\<close> 1000, the creator's balance is
  the total supply, the creator is the only account with a non-zero balance, and every
  other account's balance is zero.
\<close>

theorem constructor_result:
  "totalSupply (constructor creator) = 1000 \<and>
   balances (constructor creator) creator = totalSupply (constructor creator) \<and>
   {a. balances (constructor creator) a \<noteq> 0} = {creator} \<and>
   (\<forall>a. a \<noteq> creator \<longrightarrow> balances (constructor creator) a = 0)"
  by (auto simp: constructor_totalSupply constructor_balances)

theorem constructor_result_witness:
  "totalSupply (constructor 1) = 1000 \<and> balances (constructor 1) 1 = 1000 \<and>
   {a. balances (constructor 1) a \<noteq> 0} = {1} \<and>
   (2 :: address) \<noteq> 1 \<and> balances (constructor 1) 2 = 0"
proof -
  have ne: "(2 :: address) \<noteq> 1" by simp
  from constructor_result [of 1] ne show ?thesis by auto
qed

text \<open>
  C8 (self-transfer): in every state, a transfer from an account to itself of an amount that
  is at most its balance succeeds and leaves the whole storage, so every balance, as it
  was; with an amount above the balance it reverts with the \<^verbatim>\<open>require\<close> message, so the
  check is made against the balance before the transfer.
\<close>

theorem transfer_self_noop:
  "(amount \<le> balances s a \<longrightarrow> transfer a a amount s = Inr ((), s) \<and>
      step (Transfer a a amount) s = s) \<and>
   (balances s a < amount \<longrightarrow> transfer a a amount s = Inl (Error ''Not enough tokens!''))"
  by (simp add: transfer_self transfer_require)

theorem transfer_self_noop_witness:
  "(400 :: uint) \<le> balances (constructor 1) 1 \<and>
   transfer 1 1 400 (constructor 1) = Inr ((), constructor 1) \<and>
   step (Transfer 1 1 400) (constructor 1) = constructor 1 \<and>
   balances (constructor 1) 1 < 1001 \<and>
   transfer 1 1 1001 (constructor 1) = Inl (Error ''Not enough tokens!'')"
proof -
  have le: "(400 :: uint) \<le> balances (constructor 1) 1"
    and lt: "balances (constructor 1) 1 < 1001"
    by (simp_all add: constructor_balances)
  from transfer_self_noop [of 400 "constructor 1" 1] transfer_self_noop [of 1001 "constructor 1" 1]
    le lt
  show ?thesis by blast
qed

text \<open>
  C9 (zero amount): in every state and for every pair of accounts, a transfer of zero
  succeeds, whatever the sender holds, and leaves the whole storage as it was.
\<close>

theorem transfer_zero_noop:
  "transfer a b 0 s = Inr ((), s) \<and> step (Transfer a b 0) s = s"
  by (simp add: transfer_zero)

theorem transfer_zero_noop_witness:
  "balances (constructor 1) 2 = 0 \<and>
   transfer 2 3 0 (constructor 1) = Inr ((), constructor 1) \<and>
   step (Transfer 2 3 0) (constructor 1) = constructor 1"
proof -
  have z: "balances (constructor 1) 2 = 0"
    by (simp add: constructor_balances)
  from transfer_zero_noop [of 2 3 "constructor 1"] z show ?thesis by blast
qed

text \<open>
  C10 (frame): a transfer that succeeds leaves the balance of every account other than the
  sender and the recipient as it was.
\<close>

theorem transfer_frame:
  "transfer a b amount s = Inr (u, s') \<Longrightarrow> c \<noteq> a \<Longrightarrow> c \<noteq> b \<Longrightarrow>
   balances s' c = balances s c"
  by (drule transfer_InrD(2)) simp

theorem transfer_frame_witness:
  "transfer 1 2 50 (constructor 1) = Inr ((), step (Transfer 1 2 50) (constructor 1)) \<and>
   (3 :: address) \<noteq> 1 \<and> (3 :: address) \<noteq> 2 \<and>
   balances (step (Transfer 1 2 50) (constructor 1)) 3 = balances (constructor 1) 3"
proof -
  have ok: "transfer 1 2 50 (constructor 1) =
      Inr ((), step (Transfer 1 2 50) (constructor 1))"
    by (simp add: constructor_def transfer_def checked_sub_def checked_add_def)
  have n1: "(3 :: address) \<noteq> 1" and n2: "(3 :: address) \<noteq> 2" by simp_all
  from transfer_frame [OF ok n1 n2] ok n1 n2 show ?thesis by blast
qed

end
